theory Spec2Isabelle
  imports Complex_Main "HOL-Library.Char_ord" "HOL-Library.List_Lexorder"
begin

section \<open>Python values and errors\<close>

text \<open>
  The exceptions the two modules can raise, each with its message; for \<open>KeyError\<close> and
  \<open>AttributeError\<close> the message is the key or the attribute that was looked up.
\<close>

datatype pyerror =
    Exception string
  | KeyError string
  | AttributeError string
  | ValueError string
  | IndexError string

text \<open>\<open>type(e).__name__\<close>: the class of an exception.\<close>

fun class_name :: "pyerror \<Rightarrow> string" where
  "class_name (Exception msg) = ''Exception''"
| "class_name (KeyError msg) = ''KeyError''"
| "class_name (AttributeError msg) = ''AttributeError''"
| "class_name (ValueError msg) = ''ValueError''"
| "class_name (IndexError msg) = ''IndexError''"

text \<open>
  A dictionary is an association list; a Python dictionary holds every key once
  (\<open>well_formed\<close> below), and \<open>map_of\<close> is the lookup. Keys are byte strings, compared
  as Python 2 compares \<open>str\<close>: lexicographically by byte value.
\<close>

datatype 'a symtree = Sym 'a | SDict "(string \<times> 'a symtree) list"

datatype 'v pyval = PNone | PVal 'v | PDict "(string \<times> 'v pyval) list"

fun well_formed :: "'a symtree \<Rightarrow> bool" where
  "well_formed (Sym s) = True"
| "well_formed (SDict d) = (distinct (map fst d) \<and> list_all (\<lambda>kv. well_formed (snd kv)) d)"

definition well_formed_dict :: "(string \<times> 'a symtree) list \<Rightarrow> bool" where
  "well_formed_dict d = well_formed (SDict d)"

section \<open>utils/theano\_func\_wrapper.py\<close>

subsection \<open>\<open>_flatten\<close>\<close>

text \<open>\<open>sorted(d.items(), key=lambda t: t[0])\<close>: a stable sort on the key.\<close>

definition sorted_items :: "(string \<times> 'b) list \<Rightarrow> (string \<times> 'b) list" where
  "sorted_items d = sort_key fst d"

lemma size_list_insort_key: "size_list f (insort_key g x xs) = Suc (f x + size_list f xs)"
  by (induction xs) simp_all

lemma size_list_sort_key: "size_list f (sort_key g xs) = size_list f xs"
  by (induction xs) (simp_all add: size_list_insort_key)

text \<open>
  The loop of \<open>_flatten\<close> over the sorted items: a leaf is appended, a dictionary is
  flattened and its leaves appended in order.
\<close>

function flatten_items :: "(string \<times> 'a symtree) list \<Rightarrow> 'a list" where
  "flatten_items [] = []"
| "flatten_items ((k, Sym s) # rest) = s # flatten_items rest"
| "flatten_items ((k, SDict d) # rest) = flatten_items (sorted_items d) @ flatten_items rest"
  by pat_completeness auto
termination
  by (relation "measure (size_list (size_prod (\<lambda>k. 0) size))")
     (simp_all add: sorted_items_def size_list_sort_key)

definition flatten :: "(string \<times> 'a symtree) list \<Rightarrow> 'a list" where
  "flatten d = flatten_items (sorted_items d)"

subsection \<open>\<open>_extract_vals\<close>\<close>

text \<open>
  \<open>try: vv = vals[sk] except Exception: pass\<close> leaves \<open>None\<close> whenever the subscript
  raises: the key is absent, or \<open>vals\<close> is \<open>None\<close> or a leaf value that has no string
  subscript. A key bound to \<open>None\<close> gives \<open>None\<close> as well.
\<close>

fun getitem :: "'v pyval \<Rightarrow> string \<Rightarrow> 'v pyval" where
  "getitem (PDict m) k = (case map_of m k of Some x \<Rightarrow> x | None \<Rightarrow> PNone)"
| "getitem v k = PNone"

definition missing_msg :: "string \<Rightarrow> string" where
  "missing_msg sk = ''Key '' @ sk @ '' not found in either vals or defaults!''"

function extract_items ::
  "(string \<times> 'a symtree) list \<Rightarrow> 'v pyval \<Rightarrow> 'v pyval \<Rightarrow> pyerror + 'v pyval list" where
  "extract_items [] vals defaults = Inr []"
| "extract_items ((sk, sv) # rest) vals defaults =
     (let vv = getitem vals sk;
          vd = getitem defaults sk
      in if vv = PNone \<and> vd = PNone then Inl (Exception (missing_msg sk))
         else (case sv of
                 SDict d \<Rightarrow>
                   (case extract_items (sorted_items d) vv vd of
                      Inl e \<Rightarrow> Inl e
                    | Inr lv \<Rightarrow>
                        (case extract_items rest vals defaults of
                           Inl e \<Rightarrow> Inl e
                         | Inr l \<Rightarrow> Inr (lv @ l)))
               | Sym s \<Rightarrow>
                   (case extract_items rest vals defaults of
                      Inl e \<Rightarrow> Inl e
                    | Inr l \<Rightarrow> Inr ((if vv \<noteq> PNone then vv else vd) # l))))"
  by pat_completeness auto
termination
  by (relation "measure (\<lambda>(items, vals, defaults). size_list (size_prod (\<lambda>k. 0) size) items)")
     (simp_all add: sorted_items_def size_list_sort_key)

text \<open>\<open>defaults=None\<close> is the argument \<open>PNone\<close>.\<close>

definition extract_vals ::
  "(string \<times> 'a symtree) list \<Rightarrow> 'v pyval \<Rightarrow> 'v pyval \<Rightarrow> pyerror + 'v pyval list" where
  "extract_vals syms vals defaults = extract_items (sorted_items syms) vals defaults"

subsection \<open>Paths, for stating what the two traversals do\<close>

text \<open>
  The leaves of a symbol tree with the keys that lead to them, in the order \<open>_flatten\<close>
  visits them; the nodes (leaves and dictionaries) in the order \<open>_extract_vals\<close> looks
  them up; and the value a tree of values holds at a path.
\<close>

function flatten_paths :: "(string \<times> 'a symtree) list \<Rightarrow> (string list \<times> 'a) list" where
  "flatten_paths [] = []"
| "flatten_paths ((k, Sym s) # rest) = ([k], s) # flatten_paths rest"
| "flatten_paths ((k, SDict d) # rest) =
     map (\<lambda>(p, s). (k # p, s)) (flatten_paths (sorted_items d)) @ flatten_paths rest"
  by pat_completeness auto
termination
  by (relation "measure (size_list (size_prod (\<lambda>k. 0) size))")
     (simp_all add: sorted_items_def size_list_sort_key)

function node_paths :: "(string \<times> 'a symtree) list \<Rightarrow> string list list" where
  "node_paths [] = []"
| "node_paths ((k, Sym s) # rest) = [k] # node_paths rest"
| "node_paths ((k, SDict d) # rest) =
     [k] # map ((#) k) (node_paths (sorted_items d)) @ node_paths rest"
  by pat_completeness auto
termination
  by (relation "measure (size_list (size_prod (\<lambda>k. 0) size))")
     (simp_all add: sorted_items_def size_list_sort_key)

definition lookup_path :: "'v pyval \<Rightarrow> string list \<Rightarrow> 'v pyval" where
  "lookup_path v p = foldl getitem v p"

definition binding :: "'v pyval \<Rightarrow> 'v pyval \<Rightarrow> string list \<Rightarrow> 'v pyval" where
  "binding vals defaults p =
     (let vv = lookup_path vals p; vd = lookup_path defaults p
      in if vv \<noteq> PNone then vv else vd)"

text \<open>Every node of the symbol tree has a value in one of the two trees.\<close>

definition resolved :: "(string \<times> 'a symtree) list \<Rightarrow> 'v pyval \<Rightarrow> 'v pyval \<Rightarrow> bool" where
  "resolved syms vals defaults =
     list_all (\<lambda>q. lookup_path vals q \<noteq> PNone \<or> lookup_path defaults q \<noteq> PNone)
       (node_paths (sorted_items syms))"

subsection \<open>\<open>seval\<close> and the function cache\<close>

text \<open>
  The objects \<open>seval\<close> hashes: a Theano variable, a NumPy array (its shape and its data
  buffer, a byte string), a string, a number. \<open>hashlib.sha1(v)\<close> reads an array through
  the buffer interface, so the digest is a function of the data bytes alone; the digest
  function itself is the parameter \<open>sha1\<close>, and \<open>hexdigest()\<close> gives a string.
\<close>

datatype 's pyobj = Var 's | NdArray "nat list" string | Str string | Num real

definition hash_value :: "(string \<Rightarrow> string) \<Rightarrow> 's pyobj \<Rightarrow> 's pyobj" where
  "hash_value sha1 v = (case v of NdArray shp buf \<Rightarrow> Str (sha1 buf) | _ \<Rightarrow> v)"

text \<open>
  \<open>theano.function(sargs, expr, givens=givens)\<close> is external: the compiled evaluator is
  represented by what it was built from, and running it is the parameter \<open>run\<close> of
  \<open>seval\<close>.
\<close>

record ('e, 's) evaluator =
  f_inputs :: "'s pyobj list"
  f_outputs :: 'e
  f_givens :: "('s pyobj \<times> 's pyobj) list"

definition theano_function ::
  "'s pyobj list \<Rightarrow> 'e \<Rightarrow> ('s pyobj \<times> 's pyobj) list \<Rightarrow> ('e, 's) evaluator" where
  "theano_function sargs expr givens = \<lparr>f_inputs = sargs, f_outputs = expr, f_givens = givens\<rparr>"

text \<open>
  The module's state: \<open>_func_cache\<close>, and the evaluators compiled so far, newest first
  (one entry per call of \<open>theano.function\<close>, each announced by the source's
  \<open>DBG: Compiling expr\<close> line).
\<close>

type_synonym ('e, 's) key = "'e \<times> 's pyobj list \<times> ('s pyobj \<times> 's pyobj) list"

record ('e, 's) cache_state =
  func_cache :: "('e, 's) key \<rightharpoonup> ('e, 's) evaluator"
  compilations :: "('e, 's) evaluator list"

definition empty_cache :: "('e, 's) cache_state" where
  "empty_cache = \<lparr>func_cache = Map.empty, compilations = []\<rparr>"

definition hashable_givens ::
  "(string \<Rightarrow> string) \<Rightarrow> ('s pyobj \<times> 's pyobj) list \<Rightarrow> ('s pyobj \<times> 's pyobj) list" where
  "hashable_givens sha1 givens = map (\<lambda>(k, v). (k, hash_value sha1 v)) givens"

definition hashable_syms ::
  "(string \<Rightarrow> string) \<Rightarrow> (string \<times> 's pyobj symtree) list \<Rightarrow> 's pyobj list" where
  "hashable_syms sha1 syms = map (hash_value sha1) (flatten syms)"

definition cache_key ::
  "(string \<Rightarrow> string) \<Rightarrow> 'e \<Rightarrow> (string \<times> 's pyobj symtree) list \<Rightarrow>
   ('s pyobj \<times> 's pyobj) list \<Rightarrow> ('e, 's) key" where
  "cache_key sha1 expr syms givens = (expr, hashable_syms sha1 syms, hashable_givens sha1 givens)"

text \<open>The first half of \<open>seval\<close>: find the evaluator for the key, or build and cache it.\<close>

definition lookup_or_compile ::
  "(string \<Rightarrow> string) \<Rightarrow> 'e \<Rightarrow> (string \<times> 's pyobj symtree) list \<Rightarrow>
   ('s pyobj \<times> 's pyobj) list \<Rightarrow> ('e, 's) cache_state \<Rightarrow> ('e, 's) evaluator \<times> ('e, 's) cache_state" where
  "lookup_or_compile sha1 expr syms givens st =
     (let key = cache_key sha1 expr syms givens
      in case func_cache st key of
           Some f \<Rightarrow> (f, st)
         | None \<Rightarrow>
             (let sargs = flatten syms;
                  f = (if length givens = 0 then theano_function sargs expr []
                       else theano_function sargs expr givens)
              in (f, st\<lparr>func_cache := (func_cache st)(key \<mapsto> f),
                        compilations := f # compilations st\<rparr>)))"

text \<open>
  \<open>seval\<close> returns the evaluator's result on the extracted arguments, or the exception
  of \<open>_extract_vals\<close>; the cache is updated before the arguments are extracted.
\<close>

definition seval ::
  "(string \<Rightarrow> string) \<Rightarrow> (('e, 's) evaluator \<Rightarrow> 'v pyval list \<Rightarrow> 'r) \<Rightarrow> 'e \<Rightarrow>
   (string \<times> 's pyobj symtree) list \<Rightarrow> 'v pyval \<Rightarrow> 'v pyval \<Rightarrow> ('s pyobj \<times> 's pyobj) list \<Rightarrow>
   ('e, 's) cache_state \<Rightarrow> (pyerror + 'r) \<times> ('e, 's) cache_state" where
  "seval sha1 run expr syms vals defaults givens st =
     (let (f, st') = lookup_or_compile sha1 expr syms givens st
      in case extract_vals syms vals defaults of
           Inl e \<Rightarrow> (Inl e, st')
         | Inr args \<Rightarrow> (Inr (run f args), st'))"

section \<open>components/graph.py\<close>

subsection \<open>The configuration\<close>

text \<open>
  \<open>model['network']['graph']\<close>: a dictionary read at fixed keys, one field per key;
  \<open>None\<close> is an absent key, and reading it raises \<open>KeyError\<close>. The value of
  \<open>location_prior\<close> is handed to \<open>create_prior\<close> unread.
\<close>

record 'p graph_prms =
  g_type :: "string option"
  g_rho :: "real option"
  g_rho_refractory :: "real option"
  g_R :: "nat option"
  g_b0 :: "real option"
  g_b1 :: "real option"
  g_alpha0 :: "real list option"
  g_N_dims :: "nat option"
  g_delta :: "real option"
  g_location_prior :: "'p option"
  g_sorted :: "bool option"

record 'p model =
  model_N :: nat
  model_graph :: "'p graph_prms"

definition getkey :: "string \<Rightarrow> 'a option \<Rightarrow> pyerror + 'a" where
  "getkey k v = (case v of None \<Rightarrow> Inl (KeyError k) | Some x \<Rightarrow> Inr x)"

text \<open>\<open>str.lower()\<close> of Python 2: the ASCII capitals move down by 32.\<close>

definition lower_char :: "char \<Rightarrow> char" where
  "lower_char c = (if CHR ''A'' \<le> c \<and> c \<le> CHR ''Z'' then char_of (of_char c + (32::nat)) else c)"

definition lower :: "string \<Rightarrow> string" where
  "lower s = map lower_char s"

subsection \<open>Floating point values\<close>

text \<open>
  In a log-likelihood a float is a real number, or \<open>None\<close> for a value that is not finite
  (an infinity or NaN); rounding is not modelled there. The logarithm of zero is \<open>-inf\<close>
  and that of a negative number NaN; a product or a sum with an operand that is not finite is
  not finite (\<open>0 * -inf\<close> is NaN).
\<close>

type_synonym fl = "real option"

definition fl_log :: "real \<Rightarrow> fl" where
  "fl_log x = (if 0 < x then Some (ln x) else None)"

definition fl_mul :: "fl \<Rightarrow> fl \<Rightarrow> fl" where
  "fl_mul a b =
     (case a of None \<Rightarrow> None
      | Some x \<Rightarrow> (case b of None \<Rightarrow> None | Some y \<Rightarrow> Some (x * y)))"

definition fl_add :: "fl \<Rightarrow> fl \<Rightarrow> fl" where
  "fl_add a b =
     (case a of None \<Rightarrow> None
      | Some x \<Rightarrow> (case b of None \<Rightarrow> None | Some y \<Rightarrow> Some (x + y)))"

definition fl_sum :: "fl list \<Rightarrow> fl" where
  "fl_sum xs = foldr fl_add xs (Some 0)"

text \<open>
  \<open>T.sum(A * log_p + (1 - A) * log_q)\<close> over matrices of one shape, row by row;
  \<open>log_p\<close> and \<open>log_q\<close> hold the logarithms already taken.
\<close>

definition bernoulli :: "int \<Rightarrow> fl \<Rightarrow> fl \<Rightarrow> fl" where
  "bernoulli a lp lq =
     fl_add (fl_mul (Some (of_int a)) lp) (fl_mul (Some (of_int (1 - a))) lq)"

definition bernoulli_sum :: "int list list \<Rightarrow> fl list list \<Rightarrow> fl list list \<Rightarrow> fl" where
  "bernoulli_sum A LP LQ =
     fl_sum (concat (map (\<lambda>(arow, lprow, lqrow).
                            map (\<lambda>(a, lp, lq). bernoulli a lp lq) (zip arow (zip lprow lqrow)))
                         (zip A (zip LP LQ))))"

text \<open>\<open>np.random.rand(N, N) < pA\<close>, cast to \<open>int8\<close>; the uniform draws are the argument \<open>U\<close>.\<close>

definition draw_edges :: "real list list \<Rightarrow> real list list \<Rightarrow> int list list" where
  "draw_edges U pA = map (\<lambda>(urow, prow). map (\<lambda>(u, p). if u < p then 1 else 0) (zip urow prow)) (zip U pA)"

subsection \<open>Double precision\<close>

text \<open>
  The edge probabilities of the latent distance model are computed in IEEE double
  precision, and the order of two of them can depend on the rounding, so there a float is a
  finite value, an infinity or NaN, and an arithmetic operation returns its exact result
  rounded to the nearest double, ties to even (a double is a fixed point of \<open>rnd\<close>). The
  model has one zero, the positive one:
  it differs from IEEE only in the sign of a quotient by a negative zero, and the one
  divisor of this module is a square.
\<close>

datatype f64 = Fin real | PInf | NInf | NaN

text \<open>
  The binary exponent of a number, kept within the range of a double: \<open>-1022\<close> for the
  subnormal numbers, \<open>1024\<close> for the numbers that overflow.
\<close>

primrec halvings :: "nat \<Rightarrow> real \<Rightarrow> nat" where
  "halvings 0 x = 0"
| "halvings (Suc n) x = (if x < 2 then 0 else Suc (halvings n (x / 2)))"

primrec doublings :: "nat \<Rightarrow> real \<Rightarrow> nat" where
  "doublings 0 x = 0"
| "doublings (Suc n) x = (if 1 \<le> x then 0 else Suc (doublings n (x * 2)))"

definition expo :: "real \<Rightarrow> int" where
  "expo x = (if 1 \<le> \<bar>x\<bar> then int (halvings 1024 \<bar>x\<bar>) else - int (doublings 1022 \<bar>x\<bar>))"

definition pow2 :: "int \<Rightarrow> real" where
  "pow2 e = (if 0 \<le> e then 2 ^ nat e else 1 / 2 ^ nat (- e))"

text \<open>The nearest integer, ties to even.\<close>

definition rne :: "real \<Rightarrow> int" where
  "rne y = (let f = \<lfloor>y\<rfloor>; d = y - of_int f
            in if d < 1 / 2 then f else if 1 / 2 < d then f + 1 else if even f then f else f + 1)"

text \<open>
  The doubles around \<open>x\<close> are the multiples of \<open>quantum x\<close> (53 significant bits);
  \<open>rnd x\<close> is the nearest one, or an infinity when it is out of range.
\<close>

definition quantum :: "real \<Rightarrow> real" where
  "quantum x = pow2 (expo x - 52)"

definition round_real :: "real \<Rightarrow> real" where
  "round_real x = of_int (rne (x / quantum x)) * quantum x"

definition rnd :: "real \<Rightarrow> f64" where
  "rnd x = (let r = round_real x
            in if 2 ^ 1024 \<le> r then PInf else if r \<le> - (2 ^ 1024) then NInf else Fin r)"


fun f_less :: "f64 \<Rightarrow> f64 \<Rightarrow> bool" where
  "f_less NaN y = False"
| "f_less x NaN = False"
| "f_less (Fin a) (Fin b) = (a < b)"
| "f_less NInf NInf = False"
| "f_less PInf PInf = False"
| "f_less NInf y = True"
| "f_less x PInf = True"
| "f_less x y = False"

text \<open>
  Arithmetic: NaN propagates; \<open>inf - inf\<close>, \<open>0 * inf\<close>, \<open>inf / inf\<close> and \<open>0 / 0\<close>
  are NaN; a nonzero number divided by zero is an infinity of its sign.
\<close>

fun f_sgn :: "f64 \<Rightarrow> real" where
  "f_sgn (Fin a) = sgn a"
| "f_sgn PInf = 1"
| "f_sgn NInf = - 1"
| "f_sgn NaN = 0"

definition signed_inf :: "real \<Rightarrow> f64" where
  "signed_inf s = (if s = 0 then NaN else if 0 < s then PInf else NInf)"

fun f_neg :: "f64 \<Rightarrow> f64" where
  "f_neg (Fin a) = Fin (- a)"
| "f_neg PInf = NInf"
| "f_neg NInf = PInf"
| "f_neg NaN = NaN"

fun f_add :: "f64 \<Rightarrow> f64 \<Rightarrow> f64" where
  "f_add NaN y = NaN"
| "f_add x NaN = NaN"
| "f_add (Fin a) (Fin b) = rnd (a + b)"
| "f_add PInf NInf = NaN"
| "f_add NInf PInf = NaN"
| "f_add PInf y = PInf"
| "f_add NInf y = NInf"
| "f_add x y = y"

definition f_sub :: "f64 \<Rightarrow> f64 \<Rightarrow> f64" where
  "f_sub x y = f_add x (f_neg y)"

fun f_mul :: "f64 \<Rightarrow> f64 \<Rightarrow> f64" where
  "f_mul NaN y = NaN"
| "f_mul x NaN = NaN"
| "f_mul (Fin a) (Fin b) = rnd (a * b)"
| "f_mul x y = signed_inf (f_sgn x * f_sgn y)"

fun f_div :: "f64 \<Rightarrow> f64 \<Rightarrow> f64" where
  "f_div NaN y = NaN"
| "f_div x NaN = NaN"
| "f_div (Fin a) (Fin b) = (if b = 0 then signed_inf (sgn a) else rnd (a / b))"
| "f_div (Fin a) y = Fin 0"
| "f_div x (Fin b) = signed_inf (f_sgn x * (if b < 0 then - 1 else 1))"
| "f_div x y = NaN"

text \<open>
  \<open>exp\<close> belongs to the C library: its value at a finite argument other than zero is the
  parameter \<open>E\<close>. At zero, at the infinities and at NaN the C standard fixes the result
  (\<open>exp(0) = 1\<close>, \<open>exp(-inf) = 0\<close>, \<open>exp(inf) = inf\<close>).
\<close>

fun f_exp :: "(real \<Rightarrow> f64) \<Rightarrow> f64 \<Rightarrow> f64" where
  "f_exp E NaN = NaN"
| "f_exp E PInf = PInf"
| "f_exp E NInf = Fin 0"
| "f_exp E (Fin r) = (if r = 0 then Fin 1 else E r)"

text \<open>
  The logarithms of the likelihood are taken as in the other models, of the real value of
  a finite double.
\<close>

fun f_log :: "f64 \<Rightarrow> fl" where
  "f_log (Fin r) = fl_log r"
| "f_log x = None"

subsection \<open>\<open>CompleteGraphModel\<close>\<close>

record complete_model =
  cm_N :: nat

definition CompleteGraphModel :: "'p model \<Rightarrow> pyerror + complete_model" where
  "CompleteGraphModel model = Inr \<lparr>cm_N = model_N model\<rparr>"

text \<open>\<open>self.A = T.ones((N, N))\<close> and \<open>self.log_p = T.constant(0.0)\<close>, which reads no input.\<close>

definition complete_A :: "complete_model \<Rightarrow> real list list" where
  "complete_A m = replicate (cm_N m) (replicate (cm_N m) 1)"

definition complete_log_p :: "complete_model \<Rightarrow> 'x \<Rightarrow> fl" where
  "complete_log_p m x = Some 0"

definition complete_get_state :: "complete_model \<Rightarrow> (string \<times> real list list) list" where
  "complete_get_state m = [(''A'', complete_A m)]"

text \<open>
  Modelled from the spec: \<open>CompleteGraphModel\<close> defines no \<open>sample\<close>; it inherits the
  one of \<open>Component\<close>, and component.py is not among the sources. The spec's Complete
  variant has a constant all-ones adjacency matrix that \<open>sample()\<close> returns: the model's
  own \<open>A\<close>.
\<close>

definition complete_sample :: "complete_model \<Rightarrow> real list list" where
  "complete_sample m = complete_A m"

subsection \<open>\<open>ErdosRenyiGraphModel\<close>\<close>

record er_model =
  er_N :: nat
  er_rho :: "real list list"
  er_lkhd_scale :: real

text \<open>\<open>self.rho[np.diag_indices(N)] = v\<close>\<close>

definition set_diag :: "real list list \<Rightarrow> real \<Rightarrow> real list list" where
  "set_diag M v = map (\<lambda>(i, row). row[i := v]) (enumerate 0 M)"

definition ErdosRenyiGraphModel :: "'p model \<Rightarrow> pyerror + er_model" where
  "ErdosRenyiGraphModel model =
     (let prms = model_graph model;
          N = model_N model
      in case getkey ''rho'' (g_rho prms) of
           Inl e \<Rightarrow> Inl e
         | Inr r \<Rightarrow>
             (let rho = replicate N (replicate N r);
                  rho = (case g_rho_refractory prms of
                           Some rr \<Rightarrow> set_diag rho rr
                         | None \<Rightarrow> rho)
              in Inr \<lparr>er_N = N, er_rho = rho, er_lkhd_scale = 1\<rparr>))"

definition er_lkhd :: "er_model \<Rightarrow> int list list \<Rightarrow> fl" where
  "er_lkhd m A =
     bernoulli_sum A
       (map (map (\<lambda>r. fl_log (min (1 - 1 / 10 ^ 8) r))) (er_rho m))
       (map (map (\<lambda>r. fl_log (max (1 / 10 ^ 8) (1 - r)))) (er_rho m))"

definition er_log_p :: "er_model \<Rightarrow> int list list \<Rightarrow> fl" where
  "er_log_p m A = fl_mul (Some (er_lkhd_scale m)) (er_lkhd m A)"

definition er_sample :: "er_model \<Rightarrow> real list list \<Rightarrow> int list list" where
  "er_sample m U = draw_edges U (er_rho m)"

subsection \<open>\<open>StochasticBlockGraphModel\<close>\<close>

record sbm_model =
  sbm_N :: nat
  sbm_R :: nat
  sbm_b0 :: real
  sbm_b1 :: real
  sbm_alpha0 :: "real list"

definition StochasticBlockGraphModel :: "'p model \<Rightarrow> pyerror + sbm_model" where
  "StochasticBlockGraphModel model =
     (let prms = model_graph model;
          N = model_N model
      in case getkey ''R'' (g_R prms) of
           Inl e \<Rightarrow> Inl e
         | Inr R \<Rightarrow>
        (case getkey ''b0'' (g_b0 prms) of
           Inl e \<Rightarrow> Inl e
         | Inr b0 \<Rightarrow>
        (case getkey ''b1'' (g_b1 prms) of
           Inl e \<Rightarrow> Inl e
         | Inr b1 \<Rightarrow>
        (case getkey ''alpha0'' (g_alpha0 prms) of
           Inl e \<Rightarrow> Inl e
         | Inr alpha0 \<Rightarrow>
             Inr \<lparr>sbm_N = N, sbm_R = R, sbm_b0 = b0, sbm_b1 = b1, sbm_alpha0 = alpha0\<rparr>))))"

text \<open>
  \<open>self.pA = self.B[self.Ym, T.transpose(self.Ym)]\<close>: entry \<open>(i, j)\<close> is
  \<open>B[Y[i], Y[j]]\<close>. \<open>Y\<close> is reshaped to \<open>N\<close> rows, and an index outside \<open>B\<close> raises.
\<close>

definition sbm_pA :: "sbm_model \<Rightarrow> real list list \<Rightarrow> nat list \<Rightarrow> pyerror + real list list" where
  "sbm_pA m B Y =
     (if length Y \<noteq> sbm_N m then Inl (ValueError ''total size of new array must be unchanged'')
      else if list_all (\<lambda>yi. yi < length B \<and> list_all (\<lambda>yj. yj < length (B ! yi)) Y) Y
           then Inr (map (\<lambda>yi. map (\<lambda>yj. B ! yi ! yj) Y) Y)
           else Inl (IndexError ''index out of bounds''))"

definition sbm_log_p_B :: "sbm_model \<Rightarrow> real list list \<Rightarrow> fl" where
  "sbm_log_p_B m B =
     fl_sum (map (\<lambda>b. fl_add (fl_mul (Some (sbm_b0 m - 1)) (fl_log b))
                              (fl_mul (Some (sbm_b1 m - 1)) (fl_log (1 - b))))
                 (concat B))"

definition sbm_log_p_alpha :: "sbm_model \<Rightarrow> real list \<Rightarrow> fl" where
  "sbm_log_p_alpha m alpha =
     fl_sum (map (\<lambda>(a0, a). fl_mul (Some (a0 - 1)) (fl_log a)) (zip (sbm_alpha0 m) alpha))"

definition sbm_log_p_A :: "real list list \<Rightarrow> int list list \<Rightarrow> fl" where
  "sbm_log_p_A pA A =
     bernoulli_sum A (map (map (\<lambda>p. fl_log p)) pA) (map (map (\<lambda>p. fl_log (1 - p))) pA)"

definition sbm_log_p ::
  "sbm_model \<Rightarrow> real list list \<Rightarrow> nat list \<Rightarrow> real list \<Rightarrow> int list list \<Rightarrow> pyerror + fl" where
  "sbm_log_p m B Y alpha A =
     (case sbm_pA m B Y of
        Inl e \<Rightarrow> Inl e
      | Inr pA \<Rightarrow>
          Inr (fl_add (fl_add (sbm_log_p_B m B) (sbm_log_p_alpha m alpha)) (sbm_log_p_A pA A)))"

subsection \<open>\<open>LatentDistanceGraphModel\<close>\<close>

text \<open>
  The location prior is built by \<open>create_prior\<close> of the module \<open>priors\<close>, which is not
  among the sources: \<open>create_prior\<close> is a parameter, and the prior it returns is an object
  with \<open>log_p\<close> and \<open>sample\<close>.
\<close>

record location_prior =
  lp_log_p :: "f64 list list \<Rightarrow> fl"
  lp_sample :: "nat \<times> nat \<Rightarrow> real list list"

record 'p ld_model =
  ld_prms :: "'p graph_prms"
  ld_N :: nat
  ld_N_dims :: nat
  ld_location_prior :: location_prior
  ld_lkhd_scale :: real

definition LatentDistanceGraphModel ::
  "('p \<Rightarrow> pyerror + location_prior) \<Rightarrow> 'p model \<Rightarrow> pyerror + 'p ld_model" where
  "LatentDistanceGraphModel create_prior model =
     (let prms = model_graph model;
          N = model_N model
      in case getkey ''N_dims'' (g_N_dims prms) of
           Inl e \<Rightarrow> Inl e
         | Inr N_dims \<Rightarrow>
        (case getkey ''location_prior'' (g_location_prior prms) of
           Inl e \<Rightarrow> Inl e
         | Inr lp \<Rightarrow>
        (case create_prior lp of
           Inl e \<Rightarrow> Inl e
         | Inr prior \<Rightarrow>
             Inr \<lparr>ld_prms = prms, ld_N = N, ld_N_dims = N_dims,
                  ld_location_prior = prior, ld_lkhd_scale = 1\<rparr>)))"

text \<open>\<open>T.reshape(self.L, (self.N, self.N_dims))\<close>\<close>

definition reshape :: "'a list \<Rightarrow> nat \<Rightarrow> nat \<Rightarrow> pyerror + 'a list list" where
  "reshape L n d =
     (if length L = n * d then Inr (map (\<lambda>i. take d (drop (i * d) L)) [0..<n])
      else Inl (ValueError ''total size of new array must be unchanged''))"

text \<open>
  \<open>self.D = T.pow(L1 - L2, 2).sum(axis=2)\<close>: for every pair of rows, the squares of the
  coordinate differences, added from the left, every operation rounded. The square
  \<open>T.pow(x, 2)\<close>, like \<open>delta**2\<close> below, is the product \<open>x * x\<close>.
\<close>

definition sqdist :: "f64 list \<Rightarrow> f64 list \<Rightarrow> f64" where
  "sqdist x y = foldl f_add (Fin 0) (map (\<lambda>(a, b). f_mul (f_sub a b) (f_sub a b)) (zip x y))"

definition ld_D :: "f64 list list \<Rightarrow> f64 list list" where
  "ld_D Lm = map (\<lambda>Li. map (\<lambda>Lj. sqdist Li Lj) Lm) Lm"

text \<open>\<open>self.pA += T.eye(self.N) * (v - self.pA)\<close>\<close>

definition override_diag :: "f64 list list \<Rightarrow> real \<Rightarrow> f64 list list" where
  "override_diag pA v =
     map (\<lambda>(i, row). map (\<lambda>(j, p). f_add p (f_mul (Fin (if i = j then 1 else 0)) (f_sub (Fin v) p)))
                          (enumerate 0 row))
         (enumerate 0 pA)"

text \<open>\<open>self.pA = T.exp(-0.5*self.D/self.delta**2)\<close>, then the override of the diagonal.\<close>

definition ld_pA ::
  "(real \<Rightarrow> f64) \<Rightarrow> 'p ld_model \<Rightarrow> f64 list \<Rightarrow> f64 \<Rightarrow> pyerror + f64 list list" where
  "ld_pA E m L delta =
     (case reshape L (ld_N m) (ld_N_dims m) of
        Inl e \<Rightarrow> Inl e
      | Inr Lm \<Rightarrow>
          (let pA = map (map (\<lambda>d. f_exp E (f_div (f_mul (Fin (- 1 / 2)) d) (f_mul delta delta))))
                        (ld_D Lm);
               pA = (case g_rho_refractory (ld_prms m) of
                       Some rr \<Rightarrow> override_diag pA rr
                     | None \<Rightarrow> pA)
           in Inr pA))"

definition ld_lkhd :: "f64 list list \<Rightarrow> int list list \<Rightarrow> fl" where
  "ld_lkhd pA A =
     bernoulli_sum A (map (map (\<lambda>p. f_log p)) pA) (map (map (\<lambda>p. f_log (f_sub (Fin 1) p))) pA)"

definition ld_log_p ::
  "(real \<Rightarrow> f64) \<Rightarrow> 'p ld_model \<Rightarrow> f64 list \<Rightarrow> f64 \<Rightarrow> int list list \<Rightarrow> pyerror + fl" where
  "ld_log_p E m L delta A =
     (case reshape L (ld_N m) (ld_N_dims m) of
        Inl e \<Rightarrow> Inl e
      | Inr Lm \<Rightarrow>
     (case ld_pA E m L delta of
        Inl e \<Rightarrow> Inl e
      | Inr pA \<Rightarrow>
          Inr (fl_add (fl_mul (Some (ld_lkhd_scale m)) (ld_lkhd pA A))
                      (lp_log_p (ld_location_prior m) Lm))))"

text \<open>
  \<open>sample\<close>: the locations come from the prior, are sorted by their first coordinate when
  \<open>prms['sorted']\<close> is true, and are flattened; \<open>delta\<close> is read from the configuration; the
  edges are drawn against \<open>pA\<close>. \<open>np.argsort\<close> is modelled by a stable sort.
\<close>

definition ld_draw_edges :: "real list list \<Rightarrow> f64 list list \<Rightarrow> int list list" where
  "ld_draw_edges U pA =
     map (\<lambda>(urow, prow). map (\<lambda>(u, p). if f_less (Fin u) p then 1 else 0) (zip urow prow)) (zip U pA)"

definition ld_sample ::
  "(real \<Rightarrow> f64) \<Rightarrow> 'p ld_model \<Rightarrow> real list list \<Rightarrow>
   pyerror + (int list list \<times> real list \<times> real)" where
  "ld_sample E m U =
     (let L = lp_sample (ld_location_prior m) (ld_N m, ld_N_dims m)
      in case getkey ''sorted'' (g_sorted (ld_prms m)) of
           Inl e \<Rightarrow> Inl e
         | Inr srt \<Rightarrow>
             if srt \<and> \<not> list_all (\<lambda>row. row \<noteq> []) L then Inl (IndexError ''index out of bounds'')
             else
               (let L = (if srt then sort_key hd L else L);
                    L = concat L
                in case getkey ''delta'' (g_delta (ld_prms m)) of
                     Inl e \<Rightarrow> Inl e
                   | Inr delta \<Rightarrow>
                       (case ld_pA E m (map Fin L) (Fin delta) of
                          Inl e \<Rightarrow> Inl e
                        | Inr pA \<Rightarrow> Inr (ld_draw_edges U pA, L, delta))))"

subsection \<open>\<open>create_graph_component\<close>\<close>

datatype 'p graph =
    Complete complete_model
  | ErdosRenyi er_model
  | StochasticBlock sbm_model
  | LatentDistance "'p ld_model"

definition create_graph_component ::
  "('p \<Rightarrow> pyerror + location_prior) \<Rightarrow> 'p model \<Rightarrow> pyerror + 'p graph" where
  "create_graph_component create_prior model =
     (case getkey ''type'' (g_type (model_graph model)) of
        Inl e \<Rightarrow> Inl e
      | Inr t \<Rightarrow>
          (let type = lower t
           in if type = ''complete'' then map_sum id Complete (CompleteGraphModel model)
              else if type = ''erdos_renyi'' \<or> type = ''erdosrenyi''
                then map_sum id ErdosRenyi (ErdosRenyiGraphModel model)
              else if type = ''sbm'' then map_sum id StochasticBlock (StochasticBlockGraphModel model)
              else if type = ''distance''
                then map_sum id LatentDistance (LatentDistanceGraphModel create_prior model)
              else Inl (Exception (''Unrecognized graph model: '' @ type))))"

text \<open>Reading the attribute \<open>lkhd_scale\<close> of a graph model: only two classes set it.\<close>

fun lkhd_scale :: "'p graph \<Rightarrow> pyerror + real" where
  "lkhd_scale (Complete m) = Inl (AttributeError ''lkhd_scale'')"
| "lkhd_scale (ErdosRenyi m) = Inr (er_lkhd_scale m)"
| "lkhd_scale (StochasticBlock m) = Inl (AttributeError ''lkhd_scale'')"
| "lkhd_scale (LatentDistance m) = Inr (ld_lkhd_scale m)"

subsection \<open>Values used to state and instantiate the properties\<close>

text \<open>
  The configuration with no key; a location prior with a constant density that samples the
  origin; the Euclidean norm and the difference of two real vectors, in which the
  specification states the distance property; the correctly rounded exponential, one
  \<open>exp\<close> a C library can have; a three-node model on a line and one in the plane.
\<close>

definition no_prms :: "'p graph_prms" where
  "no_prms = \<lparr>g_type = None, g_rho = None, g_rho_refractory = None, g_R = None, g_b0 = None,
     g_b1 = None, g_alpha0 = None, g_N_dims = None, g_delta = None, g_location_prior = None,
     g_sorted = None\<rparr>"

definition flat_prior :: location_prior where
  "flat_prior = \<lparr>lp_log_p = (\<lambda>Lm. Some 0), lp_sample = (\<lambda>(n, d). replicate n (replicate d 0))\<rparr>"



definition rnd_exp :: "real \<Rightarrow> f64" where
  "rnd_exp x = rnd (exp x)"



section \<open>Facts about the traversals and the cache\<close>

lemma flatten_paths_snd: "map snd (flatten_paths items) = flatten_items items"
  by (induction items rule: flatten_paths.induct) (simp_all add: comp_def case_prod_beta)

lemma binding_Cons: "binding vals defaults (k # p) = binding (getitem vals k) (getitem defaults k) p"
  by (simp add: binding_def lookup_path_def)

lemma extract_items_binding:
  "extract_items items vals defaults = Inr vs \<Longrightarrow>
   vs = map (\<lambda>(p, s). binding vals defaults p) (flatten_paths items)"
proof (induction items vals defaults arbitrary: vs rule: extract_items.induct)
  case (1 vals defaults)
  then show ?case by simp
next
  case (2 sk sv rest vals defaults)
  show ?case
  proof (cases sv)
    case (Sym s)
    with 2 show ?thesis
      by (auto simp: Let_def binding_def lookup_path_def split: if_splits sum.splits)
  next
    case (SDict d)
    with 2 show ?thesis
      by (auto simp: Let_def binding_Cons case_prod_beta comp_def split: if_splits sum.splits)
  qed
qed


lemma lookup_path_Cons: "lookup_path v (k # p) = lookup_path (getitem v k) p"
  by (simp add: lookup_path_def)

lemma lookup_path_single: "lookup_path v [k] = getitem v k"
  by (simp add: lookup_path_def)

lemma node_paths_nonempty: "[] \<notin> set (node_paths items)"
  by (induction items rule: node_paths.induct) auto

lemma extract_items_total:
  "(\<forall>q \<in> set (node_paths items). lookup_path vals q \<noteq> PNone \<or> lookup_path defaults q \<noteq> PNone)
   \<Longrightarrow> \<exists>vs. extract_items items vals defaults = Inr vs"
proof (induction items vals defaults rule: extract_items.induct)
  case (1 vals defaults)
  then show ?case by simp
next
  case (2 sk sv rest vals defaults)
  have here: "\<not> (getitem vals sk = PNone \<and> getitem defaults sk = PNone)"
    using "2.prems" by (cases sv) (auto simp: lookup_path_single)
  have prems_rest: "\<forall>q \<in> set (node_paths rest).
      lookup_path vals q \<noteq> PNone \<or> lookup_path defaults q \<noteq> PNone"
    using "2.prems" by (cases sv) auto
  show ?case
  proof (cases sv)
    case (Sym s)
    from "2.IH"(1)[OF refl refl here Sym prems_rest]
    obtain l where "extract_items rest vals defaults = Inr l" by blast
    with here Sym show ?thesis by (auto simp: Let_def)
  next
    case (SDict d)
    have "\<forall>q \<in> set (node_paths (sorted_items d)).
        lookup_path (getitem vals sk) q \<noteq> PNone \<or> lookup_path (getitem defaults sk) q \<noteq> PNone"
    proof
      fix q assume "q \<in> set (node_paths (sorted_items d))"
      then have "sk # q \<in> set (node_paths ((sk, sv) # rest))" using SDict by simp
      with "2.prems" have "lookup_path vals (sk # q) \<noteq> PNone \<or> lookup_path defaults (sk # q) \<noteq> PNone"
        by blast
      then show "lookup_path (getitem vals sk) q \<noteq> PNone \<or> lookup_path (getitem defaults sk) q \<noteq> PNone"
        by (simp add: lookup_path_Cons)
    qed
    from "2.IH"(2)[OF refl refl here SDict this]
    obtain lv where lv: "extract_items (sorted_items d) (getitem vals sk) (getitem defaults sk) = Inr lv"
      by blast
    from "2.IH"(3)[OF refl refl here SDict lv prems_rest]
    obtain l where "extract_items rest vals defaults = Inr l" by blast
    with here SDict lv show ?thesis by (auto simp: Let_def)
  qed
qed

lemma extract_items_failure:
  "extract_items items vals defaults = Inl e \<Longrightarrow>
   \<exists>q \<in> set (node_paths items).
     lookup_path vals q = PNone \<and> lookup_path defaults q = PNone \<and>
     e = Exception (missing_msg (last q))"
proof (induction items vals defaults rule: extract_items.induct)
  case (1 vals defaults)
  then show ?case by simp
next
  case (2 sk sv rest vals defaults)
  show ?case
  proof (cases "getitem vals sk = PNone \<and> getitem defaults sk = PNone")
    case True
    with "2.prems" have "e = Exception (missing_msg sk)" by (simp add: Let_def)
    with True show ?thesis by (cases sv) (auto simp: lookup_path_single)
  next
    case False
    show ?thesis
    proof (cases sv)
      case (Sym s)
      with False "2.prems" have "extract_items rest vals defaults = Inl e"
        by (auto simp: Let_def split: sum.splits)
      from "2.IH"(1)[OF refl refl False Sym this] Sym show ?thesis by auto
    next
      case (SDict d)
      show ?thesis
      proof (cases "extract_items (sorted_items d) (getitem vals sk) (getitem defaults sk)")
        case (Inl e')
        with False SDict "2.prems" have "e' = e" by (auto simp: Let_def)
        with Inl "2.IH"(2)[OF refl refl False SDict]
        obtain q where q: "q \<in> set (node_paths (sorted_items d))"
          "lookup_path (getitem vals sk) q = PNone" "lookup_path (getitem defaults sk) q = PNone"
          "e = Exception (missing_msg (last q))"
          by blast
        from q(1) have "q \<noteq> []" using node_paths_nonempty by blast
        then have "last (sk # q) = last q" by simp
        moreover have "sk # q \<in> set (node_paths ((sk, sv) # rest))" using q(1) SDict by simp
        ultimately show ?thesis using q(2,3,4)
          by (metis lookup_path_Cons)
      next
        case (Inr lv)
        with False SDict "2.prems" have "extract_items rest vals defaults = Inl e"
          by (auto simp: Let_def split: sum.splits)
        from "2.IH"(3)[OF refl refl False SDict Inr this] SDict show ?thesis by auto
      qed
    qed
  qed
qed

lemma leaf_paths_are_nodes: "fst ` set (flatten_paths items) \<subseteq> set (node_paths items)"
  by (induction items rule: flatten_paths.induct) (auto simp: image_iff)

lemma set_sorted_items: "set (sorted_items d) = set d"
  by (simp add: sorted_items_def)


lemma distinct_map_insort_key:
  "distinct (map f (insort_key f x xs)) = (f x \<notin> f ` set xs \<and> distinct (map f xs))"
  by (induction xs) (auto simp: set_insort_key)

lemma distinct_map_sort_key: "distinct (map f (sort_key f xs)) = distinct (map f xs)"
  by (induction xs) (simp_all add: distinct_map_insort_key)

lemma sorted_items_strict:
  "distinct (map fst d) \<Longrightarrow> sorted_wrt (<) (map fst (sorted_items d))"
  by (simp add: strict_sorted_iff sorted_items_def distinct_map_sort_key)

lemma flatten_paths_heads:
  "p \<in> fst ` set (flatten_paths items) \<Longrightarrow> p \<noteq> [] \<and> hd p \<in> fst ` set items"
  by (induction items arbitrary: p rule: flatten_paths.induct) (auto simp: image_iff)

lemma sorted_wrt_map_Cons:
  "sorted_wrt (<) (map fst ps) \<Longrightarrow> sorted_wrt (<) (map fst (map (\<lambda>(p, s). (k # p, s)) ps))"
  by (induction ps) (auto simp: case_prod_beta)

lemma flatten_paths_sorted:
  "sorted_wrt (<) (map fst items) \<Longrightarrow> list_all (\<lambda>kv. well_formed (snd kv)) items \<Longrightarrow>
   sorted_wrt (<) (map fst (flatten_paths items))"
proof (induction items rule: flatten_paths.induct)
  case 1
  then show ?case by simp
next
  case (2 k s rest)
  have "[k] < p" if "p \<in> fst ` set (flatten_paths rest)" for p
  proof -
    from flatten_paths_heads[OF that] obtain k' p' where p: "p = k' # p'" "k' \<in> fst ` set rest"
      by (cases p) auto
    with "2.prems"(1) have "k < k'" by auto
    with p show ?thesis by simp
  qed
  with 2 show ?case by auto
next
  case (3 k d rest)
  have sub: "sorted_wrt (<) (map fst (flatten_paths (sorted_items d)))"
    using "3.IH"(1) "3.prems"(2) by (simp add: sorted_items_strict list_all_iff set_sorted_items)
  have rest: "sorted_wrt (<) (map fst (flatten_paths rest))"
    using "3.IH"(2) "3.prems" by simp
  have cross: "k # q < p" if "p \<in> fst ` set (flatten_paths rest)" for p q
  proof -
    from flatten_paths_heads[OF that] obtain k' p' where p: "p = k' # p'" "k' \<in> fst ` set rest"
      by (cases p) auto
    with "3.prems"(1) have "k < k'" by auto
    with p show ?thesis by simp
  qed
  show ?case
    using sorted_wrt_map_Cons[OF sub, of k] rest cross
    by (auto simp: sorted_wrt_append case_prod_beta image_iff)
qed

lemma flatten_paths_sorted_dict:
  "well_formed_dict syms \<Longrightarrow> sorted_wrt (<) (map fst (flatten_paths (sorted_items syms)))"
  unfolding well_formed_dict_def
  by (rule flatten_paths_sorted) (simp_all add: sorted_items_strict list_all_iff set_sorted_items)


lemma extract_items_no_None:
  "extract_items items vals defaults = Inr vs \<Longrightarrow> PNone \<notin> set vs"
proof (induction items vals defaults arbitrary: vs rule: extract_items.induct)
  case (1 vals defaults)
  then show ?case by simp
next
  case (2 sk sv rest vals defaults)
  show ?case
  proof (cases sv)
    case (Sym s)
    with 2 show ?thesis
      by (auto simp: Let_def split: if_splits sum.splits)
  next
    case (SDict d)
    with 2 show ?thesis
      by (auto simp: Let_def split: if_splits sum.splits)
  qed
qed

lemma extract_vals_binding:
  "extract_vals syms vals defaults = Inr vs \<Longrightarrow>
   vs = map (\<lambda>(p, s). binding vals defaults p) (flatten_paths (sorted_items syms))"
  unfolding extract_vals_def by (rule extract_items_binding)

lemma resolved_total:
  "resolved syms vals defaults \<Longrightarrow> \<exists>vs. extract_vals syms vals defaults = Inr vs"
  unfolding resolved_def extract_vals_def list_all_iff by (rule extract_items_total)

lemma extract_items_getitem_cong:
  "(\<forall>k. getitem vals k = getitem vals' k) \<Longrightarrow>
   extract_items items vals defaults = extract_items items vals' defaults"
proof (induction items vals defaults rule: extract_items.induct)
  case (1 vals defaults)
  then show ?case by simp
next
  case (2 sk sv rest vals defaults)
  have g: "getitem vals' sk = getitem vals sk" using "2.prems" by simp
  show ?case
  proof (cases "getitem vals sk = PNone \<and> getitem defaults sk = PNone")
    case True
    then show ?thesis by (auto simp: g Let_def)
  next
    case False
    show ?thesis
    proof (cases sv)
      case (Sym s)
      from "2.IH"(1)[OF refl refl False Sym "2.prems"] Sym False show ?thesis
        by (auto simp: g Let_def)
    next
      case (SDict d)
      show ?thesis
      proof (cases "extract_items (sorted_items d) (getitem vals sk) (getitem defaults sk)")
        case (Inl e)
        with SDict False show ?thesis by (auto simp: g Let_def)
      next
        case (Inr lv)
        from "2.IH"(3)[OF refl refl False SDict Inr "2.prems"] SDict False Inr show ?thesis
          by (auto simp: g Let_def)
      qed
    qed
  qed
qed

lemma getitem_None_binding:
  "map_of m k = None \<Longrightarrow> getitem (PDict ((k, PNone) # m)) k' = getitem (PDict m) k'"
  by simp

lemma extract_vals_failure:
  "extract_vals syms vals defaults = Inl e \<Longrightarrow>
   \<exists>q \<in> set (node_paths (sorted_items syms)).
     lookup_path vals q = PNone \<and> lookup_path defaults q = PNone \<and>
     e = Exception (missing_msg (last q))"
  unfolding extract_vals_def by (rule extract_items_failure)

lemma extract_vals_nth:
  assumes "extract_vals syms vals defaults = Inr vs" "i < length vs"
  shows "vs ! i = binding vals defaults (fst (flatten_paths (sorted_items syms) ! i))"
proof -
  have b: "vs = map (\<lambda>(p, s). binding vals defaults p) (flatten_paths (sorted_items syms))"
    by (rule extract_vals_binding[OF assms(1)])
  then have "length vs = length (flatten_paths (sorted_items syms))" by simp
  with assms(2) have "i < length (flatten_paths (sorted_items syms))" by simp
  then have "map (\<lambda>(p, s). binding vals defaults p) (flatten_paths (sorted_items syms)) ! i
      = binding vals defaults (fst (flatten_paths (sorted_items syms) ! i))"
    by (simp add: case_prod_beta)
  with b show ?thesis by simp
qed

lemma extract_vals_unbound_leaf_fails:
  assumes "(p, s) \<in> set (flatten_paths (sorted_items syms))"
      and "lookup_path vals p = PNone" "lookup_path defaults p = PNone"
  shows "\<exists>e. extract_vals syms vals defaults = Inl e"
proof (cases "extract_vals syms vals defaults")
  case (Inl e)
  then show ?thesis by blast
next
  case (Inr vs)
  from assms(1) obtain i where i: "i < length (flatten_paths (sorted_items syms))"
      "flatten_paths (sorted_items syms) ! i = (p, s)"
    by (auto simp: in_set_conv_nth)
  have len: "length vs = length (flatten_paths (sorted_items syms))"
    using extract_vals_binding[OF Inr] by simp
  have "vs ! i = binding vals defaults p"
    using extract_vals_nth[OF Inr] i len by simp
  then have none: "vs ! i = PNone" using assms(2,3) by (simp add: binding_def)
  have "extract_items (sorted_items syms) vals defaults = Inr vs"
    using Inr by (simp add: extract_vals_def)
  then have "PNone \<notin> set vs" by (rule extract_items_no_None)
  with none i len show ?thesis by (metis nth_mem)
qed

lemma theano_function_givens: "(if length g = 0 then theano_function a e [] else theano_function a e g) = theano_function a e g"
  by simp

lemma snd_seval: "snd (seval sha1 run expr syms vals defaults givens st) =
   snd (lookup_or_compile sha1 expr syms givens st)"
  by (simp add: seval_def case_prod_beta split: sum.splits)

lemma lookup_or_compile_hit:
  "func_cache st (cache_key sha1 expr syms givens) = Some f \<Longrightarrow>
   lookup_or_compile sha1 expr syms givens st = (f, st)"
  by (simp add: lookup_or_compile_def)

lemma lookup_or_compile_miss:
  "func_cache st (cache_key sha1 expr syms givens) = None \<Longrightarrow>
   lookup_or_compile sha1 expr syms givens st =
     (theano_function (flatten syms) expr givens,
      st\<lparr>func_cache := (func_cache st)(cache_key sha1 expr syms givens \<mapsto> theano_function (flatten syms) expr givens),
         compilations := theano_function (flatten syms) expr givens # compilations st\<rparr>)"
  by (simp add: lookup_or_compile_def Let_def)

lemma lookup_or_compile_cached:
  "lookup_or_compile sha1 expr syms givens st = (f, st') \<Longrightarrow>
   func_cache st' (cache_key sha1 expr syms givens) = Some f"
  by (auto simp: lookup_or_compile_def Let_def split: option.splits)

lemma lookup_or_compile_count:
  "lookup_or_compile sha1 expr syms givens st = (f, st') \<Longrightarrow>
   length (compilations st') \<le> length (compilations st) + 1"
  by (auto simp: lookup_or_compile_def Let_def split: option.splits)

lemma fst_seval: "fst (seval sha1 run expr syms vals defaults givens st) =
   map_sum id (run (fst (lookup_or_compile sha1 expr syms givens st))) (extract_vals syms vals defaults)"
  by (simp add: seval_def case_prod_beta split: sum.splits)

text \<open>
  What the cache does, key by key. The key is the expression, the flattened symbols and the
  hashed conditioning pairs. A call compiles at most once. A second call with the same key
  compiles nothing, leaves the state as it is and runs the evaluator of the first call on
  its own arguments. A later call whose hashed conditioning differs, for a key not cached
  before the first call, compiles exactly once, adds exactly one entry and runs the
  evaluator built from its own conditioning; the earlier entry stays.
\<close>

lemma seval_compiles_once_per_key:
  assumes same: "hashable_syms sha1 syms2 = hashable_syms sha1 syms1"
                "hashable_givens sha1 givens2 = hashable_givens sha1 givens1"
      and differs: "hashable_givens sha1 givens3 \<noteq> hashable_givens sha1 givens1"
      and fresh: "func_cache st0 (cache_key sha1 expr syms3 givens3) = None"
      and st1: "st1 = snd (seval sha1 run expr syms1 vals1 defaults1 givens1 st0)"
      and st2: "st2 = snd (seval sha1 run expr syms2 vals2 defaults2 givens2 st1)"
      and st3: "st3 = snd (seval sha1 run expr syms3 vals3 defaults3 givens3 st2)"
  shows "length (compilations st1) \<le> length (compilations st0) + 1
       \<and> st2 = st1
       \<and> fst (seval sha1 run expr syms2 vals2 defaults2 givens2 st1)
           = map_sum id (run (fst (lookup_or_compile sha1 expr syms1 givens1 st0)))
               (extract_vals syms2 vals2 defaults2)
       \<and> fst (seval sha1 run expr syms3 vals3 defaults3 givens3 st2)
           = map_sum id (run (theano_function (flatten syms3) expr givens3))
               (extract_vals syms3 vals3 defaults3)
       \<and> compilations st3 = theano_function (flatten syms3) expr givens3 # compilations st2
       \<and> func_cache st3 = (func_cache st2)(cache_key sha1 expr syms3 givens3 \<mapsto>
                              theano_function (flatten syms3) expr givens3)
       \<and> func_cache st2 (cache_key sha1 expr syms3 givens3) = None
       \<and> func_cache st3 (cache_key sha1 expr syms1 givens1)
           = Some (fst (lookup_or_compile sha1 expr syms1 givens1 st0))"
proof -
  let ?k1 = "cache_key sha1 expr syms1 givens1"
  let ?k3 = "cache_key sha1 expr syms3 givens3"
  obtain f1 where c1: "lookup_or_compile sha1 expr syms1 givens1 st0 = (f1, st1)"
    using st1 by (metis snd_seval prod.collapse)
  have hit1: "func_cache st1 ?k1 = Some f1"
    by (rule lookup_or_compile_cached[OF c1])
  have k2: "cache_key sha1 expr syms2 givens2 = ?k1"
    using same by (simp add: cache_key_def)
  have c2: "lookup_or_compile sha1 expr syms2 givens2 st1 = (f1, st1)"
    by (rule lookup_or_compile_hit) (simp add: k2 hit1)
  have s2: "st2 = st1" using st2 c2 by (simp add: snd_seval)
  have k3: "?k3 \<noteq> ?k1" using differs by (simp add: cache_key_def)
  have fresh1: "func_cache st1 ?k3 = None"
    using c1 fresh k3 by (auto simp: lookup_or_compile_def Let_def split: option.splits)
  have c3: "st3 = snd (lookup_or_compile sha1 expr syms3 givens3 st1)"
    using st3 s2 by (simp add: snd_seval)
  have "length (compilations st1) \<le> length (compilations st0) + 1"
    by (rule lookup_or_compile_count[OF c1])
  moreover have "fst (seval sha1 run expr syms2 vals2 defaults2 givens2 st1)
           = map_sum id (run (fst (lookup_or_compile sha1 expr syms1 givens1 st0)))
               (extract_vals syms2 vals2 defaults2)"
    by (simp add: fst_seval c1 c2)
  moreover have "fst (seval sha1 run expr syms3 vals3 defaults3 givens3 st2)
           = map_sum id (run (theano_function (flatten syms3) expr givens3))
               (extract_vals syms3 vals3 defaults3)"
    by (simp add: fst_seval s2 lookup_or_compile_miss[OF fresh1])
  moreover have "compilations st3 = theano_function (flatten syms3) expr givens3 # compilations st2"
    using c3 s2 by (simp add: lookup_or_compile_miss[OF fresh1])
  moreover have "func_cache st3 = (func_cache st2)(?k3 \<mapsto> theano_function (flatten syms3) expr givens3)"
    using c3 s2 by (simp add: lookup_or_compile_miss[OF fresh1])
  moreover have "func_cache st3 ?k1 = Some (fst (lookup_or_compile sha1 expr syms1 givens1 st0))"
    using c3 k3 hit1 by (simp add: lookup_or_compile_miss[OF fresh1] c1)
  ultimately show ?thesis using s2 fresh1 by simp
qed

section \<open>Facts about double precision\<close>









lemma rne_of_int: "rne (of_int n) = n"
  by (simp add: rne_def)



lemma rne_0: "rne 0 = 0" using rne_of_int[of 0] by simp












lemma round_real_0: "round_real 0 = 0"
  by (simp add: round_real_def rne_0)

lemma rnd_0: "rnd 0 = Fin 0"
  by (simp add: rnd_def round_real_0)

lemma round_real_1: "round_real 1 = 1"
  by (simp add: round_real_def quantum_def expo_def pow2_def rne_def eval_nat_numeral)



lemma rnd_not_NaN: "rnd x \<noteq> NaN"
  by (simp add: rnd_def Let_def)

















lemma rnd_1: "rnd 1 = Fin 1"
  by (simp add: rnd_def round_real_1)

section \<open>Facts about the graph models\<close>

lemma lower_SBM: "lower ''SBM'' = ''sbm''"
  by code_simp

lemma lower_tree: "lower ''tree'' = ''tree''"
  by code_simp

lemma lower_sbm: "lower ''sbm'' = ''sbm''"
  by code_simp

lemma length_concat_rows:
  "list_all (\<lambda>row. length row = d) L \<Longrightarrow> length (concat L) = length L * d"
  by (induction L) simp_all

lemma ld_pA_total:
  "length L = ld_N m * ld_N_dims m \<Longrightarrow> \<exists>pA. ld_pA E m L delta = Inr pA"
  by (simp add: ld_pA_def reshape_def Let_def)






lemma er_log_p_scaled: "er_log_p m A = fl_mul (Some (er_lkhd_scale m)) (er_lkhd m A)"
  by (simp add: er_log_p_def)

lemma er_default_scale: "ErdosRenyiGraphModel model = Inr m \<Longrightarrow> er_lkhd_scale m = 1"
  by (auto simp: ErdosRenyiGraphModel_def Let_def split: sum.splits option.splits)

lemma ld_default_scale: "LatentDistanceGraphModel cp model = Inr m \<Longrightarrow> ld_lkhd_scale m = 1"
  by (auto simp: LatentDistanceGraphModel_def Let_def split: sum.splits)

lemma ld_log_p_scaled:
  "ld_pA E m L delta = Inr pA \<Longrightarrow> reshape L (ld_N m) (ld_N_dims m) = Inr Lm \<Longrightarrow>
   ld_log_p E m L delta A
     = Inr (fl_add (fl_mul (Some (ld_lkhd_scale m)) (ld_lkhd pA A)) (lp_log_p (ld_location_prior m) Lm))"
  by (simp add: ld_log_p_def)

section \<open>Properties of utils/theano\_func\_wrapper.py\<close>

text \<open>
  C2, evaluated where it fails. The key holds the digest of an array's data bytes and not
  its shape, so a \<open>2 \<times> 2\<close> array and the \<open>1 \<times> 4\<close> array of the same bytes
  share a key, whatever the digest function is. After a call conditioned on the first
  array, a call conditioned on the second one compiles nothing, leaves the cache as it is
  and returns the result of the evaluator that was compiled with the first array, where a
  call on an empty cache returns the result of the evaluator compiled with the second
  array. For an evaluator whose result shows its conditioning the two results differ.
\<close>

theorem seval_stale_evaluator:
  "(let syms = [(''x'', Sym (Var ''x''))];
        vals = PDict [(''x'', PVal (1 :: nat))];
        g1 = [(Var ''c'', NdArray [2, 2] ''abcd'')];
        g2 = [(Var ''c'', NdArray [1, 4] ''abcd'')];
        f1 = theano_function [Var ''x''] ''e'' g1;
        f2 = theano_function [Var ''x''] ''e'' g2;
        st1 = snd (seval sha1 run ''e'' syms vals PNone g1 empty_cache);
        shown = (\<lambda>(f :: (string, string) evaluator) (args :: nat pyval list). f_givens f)
    in g1 \<noteq> g2
     \<and> fst (seval sha1 run ''e'' syms vals PNone g1 empty_cache) = Inr (run f1 [PVal 1])
     \<and> compilations st1 = [f1]
     \<and> seval sha1 run ''e'' syms vals PNone g2 st1 = (Inr (run f1 [PVal 1]), st1)
     \<and> fst (seval sha1 run ''e'' syms vals PNone g2 empty_cache) = Inr (run f2 [PVal 1])
     \<and> fst (seval sha1 shown ''e'' syms vals PNone g2
              (snd (seval sha1 shown ''e'' syms vals PNone g1 empty_cache))) = Inr g1
     \<and> fst (seval sha1 shown ''e'' syms vals PNone g2 empty_cache) = Inr g2)"
  by (simp add: Let_def seval_def lookup_or_compile_def empty_cache_def flatten_def sorted_items_def
      cache_key_def hashable_givens_def hashable_syms_def hash_value_def extract_vals_def
      theano_function_def)

text \<open>
  C3. When every node of the symbol tree has a value in the value tree or in the defaults
  (the trees match in shape), \<open>_extract_vals\<close> returns a list of values that lines up
  with the list of symbols \<open>_flatten\<close> returns: both have the same length, the i-th
  symbol is the leaf at the i-th path, and the i-th value is the binding found at that same
  path. Both traversals visit the keys of every dictionary in sorted order, so the paths come
  out in strictly increasing lexicographic order.
\<close>

theorem extract_vals_positional:
  assumes "resolved syms vals defaults"
  shows "\<exists>vs. extract_vals syms vals defaults = Inr vs
           \<and> length vs = length (flatten syms)
           \<and> map snd (flatten_paths (sorted_items syms)) = flatten syms
           \<and> vs = map (\<lambda>(p, s). binding vals defaults p) (flatten_paths (sorted_items syms))
           \<and> (well_formed_dict syms \<longrightarrow>
                sorted_wrt (<) (map fst (flatten_paths (sorted_items syms))))"
proof -
  from resolved_total[OF assms] obtain vs where vs: "extract_vals syms vals defaults = Inr vs"
    by blast
  have paths: "map snd (flatten_paths (sorted_items syms)) = flatten syms"
    by (simp add: flatten_paths_snd flatten_def)
  have b: "vs = map (\<lambda>(p, s). binding vals defaults p) (flatten_paths (sorted_items syms))"
    by (rule extract_vals_binding[OF vs])
  have "length vs = length (flatten_paths (sorted_items syms))"
    by (subst b) simp
  also have "\<dots> = length (flatten syms)"
    by (subst paths[symmetric]) simp
  finally have "length vs = length (flatten syms)" .
  with vs paths b flatten_paths_sorted_dict[of syms] show ?thesis by blast
qed

theorem extract_vals_positional_witness:
  "extract_vals [(''b'', Sym ''sb''), (''a'', SDict [(''z'', Sym ''sz''), (''y'', Sym ''sy'')])]
       (PDict [(''a'', PDict [(''y'', PVal (10::nat)), (''z'', PVal 7)]), (''b'', PVal 9)]) PNone
     = Inr [PVal 10, PVal 7, PVal 9]
   \<and> flatten [(''b'', Sym ''sb''), (''a'', SDict [(''z'', Sym ''sz''), (''y'', Sym ''sy'')])]
     = [''sy'', ''sz'', ''sb'']
   \<and> map fst (flatten_paths (sorted_items
         [(''b'', Sym ''sb''), (''a'', SDict [(''z'', Sym ''sz''), (''y'', Sym ''sy'')])]))
     = [[''a'', ''y''], [''a'', ''z''], [''b'']]"
proof -
  let ?syms = "[(''b'', Sym ''sb''), (''a'', SDict [(''z'', Sym ''sz''), (''y'', Sym ''sy'')])]"
  let ?vals = "PDict [(''a'', PDict [(''y'', PVal (10::nat)), (''z'', PVal 7)]), (''b'', PVal 9)]"
  have r: "resolved ?syms ?vals PNone"
    by (simp add: resolved_def sorted_items_def lookup_path_def)
  have wf: "well_formed_dict ?syms"
    by (simp add: well_formed_dict_def)
  from extract_vals_positional[OF r] wf show ?thesis
    by (simp add: sorted_items_def flatten_def binding_def lookup_path_def)
qed

text \<open>
  C6, as amended. When some leaf symbol has a value neither in the value tree nor in the
  defaults, \<open>_extract_vals\<close> raises an exception whose message names one key: the last
  key of a node path of the symbol tree (the leaf or a dictionary above it) at which both
  lookups give \<open>None\<close>; and when the extraction succeeds, a leaf that has a value in the
  value tree gets that value, whatever the defaults hold.
\<close>

theorem extract_vals_missing_key:
  "((\<exists>ps \<in> set (flatten_paths (sorted_items syms)).
        lookup_path vals (fst ps) = PNone \<and> lookup_path defaults (fst ps) = PNone) \<longrightarrow>
      (\<exists>q \<in> set (node_paths (sorted_items syms)).
         lookup_path vals q = PNone \<and> lookup_path defaults q = PNone \<and>
         extract_vals syms vals defaults = Inl (Exception (missing_msg (last q)))))
   \<and> (\<forall>vs i. extract_vals syms vals defaults = Inr vs \<and> i < length vs \<and>
          lookup_path vals (fst (flatten_paths (sorted_items syms) ! i)) \<noteq> PNone \<longrightarrow>
          vs ! i = lookup_path vals (fst (flatten_paths (sorted_items syms) ! i)))"
proof (intro conjI impI allI)
  assume "\<exists>ps \<in> set (flatten_paths (sorted_items syms)).
        lookup_path vals (fst ps) = PNone \<and> lookup_path defaults (fst ps) = PNone"
  then obtain p s where "(p, s) \<in> set (flatten_paths (sorted_items syms))"
      "lookup_path vals p = PNone" "lookup_path defaults p = PNone"
    by auto
  from extract_vals_unbound_leaf_fails[OF this] obtain e
    where e: "extract_vals syms vals defaults = Inl e" by blast
  from extract_vals_failure[OF e] e
  show "\<exists>q \<in> set (node_paths (sorted_items syms)).
         lookup_path vals q = PNone \<and> lookup_path defaults q = PNone \<and>
         extract_vals syms vals defaults = Inl (Exception (missing_msg (last q)))"
    by auto
next
  fix vs i
  assume a: "extract_vals syms vals defaults = Inr vs \<and> i < length vs \<and>
          lookup_path vals (fst (flatten_paths (sorted_items syms) ! i)) \<noteq> PNone"
  then have "vs ! i = binding vals defaults (fst (flatten_paths (sorted_items syms) ! i))"
    using extract_vals_nth by blast
  with a show "vs ! i = lookup_path vals (fst (flatten_paths (sorted_items syms) ! i))"
    by (simp add: binding_def)
qed

theorem extract_vals_missing_key_witness:
  "extract_vals [(''a'', SDict [(''b'', Sym ''s'')])] (PDict [(''a'', PDict [])]) (PNone :: nat pyval)
     = Inl (Exception ''Key b not found in either vals or defaults!'')
   \<and> extract_vals [(''k'', Sym ''s'')] (PDict [(''k'', PVal (1::nat))]) (PDict [(''k'', PVal 2)])
     = Inr [PVal 1]"
proof -
  have "\<exists>ps \<in> set (flatten_paths (sorted_items [(''a'', SDict [(''b'', Sym ''s'')])])).
        lookup_path (PDict [(''a'', PDict [])]) (fst ps) = (PNone :: nat pyval)
        \<and> lookup_path (PNone :: nat pyval) (fst ps) = PNone"
    by (simp add: sorted_items_def lookup_path_def)
  with extract_vals_missing_key[of "[(''a'', SDict [(''b'', Sym ''s'')])]"
      "PDict [(''a'', PDict [])]" "PNone :: nat pyval"]
  have 1: "extract_vals [(''a'', SDict [(''b'', Sym ''s'')])] (PDict [(''a'', PDict [])]) (PNone :: nat pyval)
     = Inl (Exception ''Key b not found in either vals or defaults!'')"
    by (simp add: sorted_items_def lookup_path_def missing_msg_def extract_vals_def)
  have e: "extract_vals [(''k'', Sym ''s'')] (PDict [(''k'', PVal (1::nat))]) (PDict [(''k'', PVal 2)])
     = Inr [PVal 1]"
    by (simp add: extract_vals_def sorted_items_def)
  from extract_vals_missing_key[of "[(''k'', Sym ''s'')]" "PDict [(''k'', PVal (1::nat))]"
      "PDict [(''k'', PVal 2)]"] e
  have "[PVal (1::nat)] ! 0 = lookup_path (PDict [(''k'', PVal (1::nat))])
      (fst (flatten_paths (sorted_items [(''k'', Sym ''s'')]) ! 0))"
    by (simp add: sorted_items_def lookup_path_def)
  with 1 e show ?thesis by simp
qed

text \<open>
  The message holds the key alone, not the path from the root: the leaves \<open>a/b\<close> and
  \<open>c/b\<close> of two different symbol trees raise the same exception.
\<close>

theorem extract_vals_path_counterexample:
  "extract_vals [(''a'', SDict [(''b'', Sym ''s'')])] (PDict [(''a'', PDict [])]) (PNone :: nat pyval)
     = Inl (Exception ''Key b not found in either vals or defaults!'')
   \<and> extract_vals [(''c'', SDict [(''b'', Sym ''s'')])] (PDict [(''c'', PDict [])]) (PNone :: nat pyval)
     = Inl (Exception ''Key b not found in either vals or defaults!'')
   \<and> map fst (flatten_paths (sorted_items [(''a'', SDict [(''b'', Sym ''s'')])])) = [[''a'', ''b'']]
   \<and> map fst (flatten_paths (sorted_items [(''c'', SDict [(''b'', Sym ''s'')])])) = [[''c'', ''b'']]"
  by (simp add: extract_vals_def sorted_items_def missing_msg_def)

text \<open>
  C9. A key bound to \<open>None\<close> in the value tree is the same as a key that is absent:
  the extraction gives the same result with and without the binding; a leaf whose lookup in
  the value tree gives \<open>None\<close> gets the value the defaults hold, which is not \<open>None\<close>;
  and the extraction fails only if at some node both lookups give \<open>None\<close>.
\<close>

theorem extract_vals_None_is_absent:
  "(map_of m k = None \<longrightarrow>
      extract_vals syms (PDict ((k, PNone) # m)) defaults = extract_vals syms (PDict m) defaults)
   \<and> (\<forall>vs i. extract_vals syms vals defaults = Inr vs \<and> i < length vs \<and>
          lookup_path vals (fst (flatten_paths (sorted_items syms) ! i)) = PNone \<longrightarrow>
          vs ! i = lookup_path defaults (fst (flatten_paths (sorted_items syms) ! i)) \<and>
          vs ! i \<noteq> PNone)
   \<and> (\<forall>e. extract_vals syms vals defaults = Inl e \<longrightarrow>
          (\<exists>q \<in> set (node_paths (sorted_items syms)).
             lookup_path vals q = PNone \<and> lookup_path defaults q = PNone))"
proof (intro conjI)
  show "map_of m k = None \<longrightarrow>
      extract_vals syms (PDict ((k, PNone) # m)) defaults = extract_vals syms (PDict m) defaults"
  proof
    assume "map_of m k = None"
    then have "\<forall>k'. getitem (PDict ((k, PNone) # m)) k' = getitem (PDict m) k'"
      by simp
    then show "extract_vals syms (PDict ((k, PNone) # m)) defaults
        = extract_vals syms (PDict m) defaults"
      unfolding extract_vals_def by (rule extract_items_getitem_cong)
  qed
next
  show "\<forall>vs i. extract_vals syms vals defaults = Inr vs \<and> i < length vs \<and>
          lookup_path vals (fst (flatten_paths (sorted_items syms) ! i)) = PNone \<longrightarrow>
          vs ! i = lookup_path defaults (fst (flatten_paths (sorted_items syms) ! i)) \<and>
          vs ! i \<noteq> PNone"
  proof (intro allI impI)
    fix vs i
    assume a: "extract_vals syms vals defaults = Inr vs \<and> i < length vs \<and>
          lookup_path vals (fst (flatten_paths (sorted_items syms) ! i)) = PNone"
    then have b: "vs ! i = binding vals defaults (fst (flatten_paths (sorted_items syms) ! i))"
      using extract_vals_nth by blast
    from a have "extract_items (sorted_items syms) vals defaults = Inr vs"
      by (simp add: extract_vals_def)
    then have "PNone \<notin> set vs" by (rule extract_items_no_None)
    with a have "vs ! i \<noteq> PNone" by (metis nth_mem)
    with a b show "vs ! i = lookup_path defaults (fst (flatten_paths (sorted_items syms) ! i))
        \<and> vs ! i \<noteq> PNone"
      by (simp add: binding_def)
  qed
next
  show "\<forall>e. extract_vals syms vals defaults = Inl e \<longrightarrow>
          (\<exists>q \<in> set (node_paths (sorted_items syms)).
             lookup_path vals q = PNone \<and> lookup_path defaults q = PNone)"
  proof (intro allI impI)
    fix e assume "extract_vals syms vals defaults = Inl e"
    from extract_vals_failure[OF this]
    show "\<exists>q \<in> set (node_paths (sorted_items syms)).
             lookup_path vals q = PNone \<and> lookup_path defaults q = PNone"
      by blast
  qed
qed

theorem extract_vals_None_is_absent_witness:
  "extract_vals [(''k'', Sym ''s'')] (PDict [(''k'', PNone)]) (PDict [(''k'', PVal (2::nat))])
     = Inr [PVal 2]
   \<and> extract_vals [(''k'', Sym ''s'')] (PDict [(''k'', PNone)]) (PDict [(''k'', PVal (2::nat))])
     = extract_vals [(''k'', Sym ''s'')] (PDict []) (PDict [(''k'', PVal (2::nat))])
   \<and> extract_vals [(''k'', Sym ''s'')] (PDict [(''k'', PNone)]) (PDict [(''k'', PNone :: nat pyval)])
     = Inl (Exception ''Key k not found in either vals or defaults!'')"
proof -
  let ?syms = "[(''k'', Sym ''s'')]"
  note t = extract_vals_None_is_absent[of "[]" "''k''" ?syms "PDict [(''k'', PVal (2::nat))]"
      "PDict [(''k'', PNone)]"]
  have e: "extract_vals ?syms (PDict [(''k'', PNone)]) (PDict [(''k'', PVal (2::nat))]) = Inr [PVal 2]"
    by (simp add: extract_vals_def sorted_items_def)
  have f: "extract_vals ?syms (PDict [(''k'', PNone)]) (PDict [(''k'', PNone :: nat pyval)])
     = Inl (Exception ''Key k not found in either vals or defaults!'')"
    by (simp add: extract_vals_def sorted_items_def missing_msg_def)
  from t have "extract_vals ?syms (PDict [(''k'', PNone)]) (PDict [(''k'', PVal (2::nat))])
     = extract_vals ?syms (PDict []) (PDict [(''k'', PVal (2::nat))])"
    by simp
  with e f show ?thesis by simp
qed

section \<open>Properties of components/graph.py\<close>

text \<open>
  C1, evaluated where it fails. Only \<open>ErdosRenyiGraphModel\<close> clamps, and it clamps
  \<open>rho\<close> from above only: with \<open>rho_refractory = 0\<close> the first logarithm is taken of
  \<open>min (1 - 1e-8) 0 = 0\<close>, and \<open>log_p\<close> is not finite for the adjacency matrices
  \<open>[[0]]\<close> and \<open>[[1]]\<close>. \<open>LatentDistanceGraphModel\<close> takes \<open>log pA\<close> and
  \<open>log (1 - pA)\<close> unclamped: without \<open>rho_refractory\<close> the diagonal of \<open>pA\<close> is
  \<open>exp 0 = 1\<close>, and \<open>log_p\<close> is not finite for either adjacency matrix.
\<close>

theorem log_p_not_finite:
  "ErdosRenyiGraphModel
       \<lparr>model_N = 1, model_graph = (no_prms :: unit graph_prms)\<lparr>g_type := Some ''erdos_renyi'',
          g_rho := Some 0.5, g_rho_refractory := Some 0\<rparr>\<rparr>
     = Inr \<lparr>er_N = 1, er_rho = [[0]], er_lkhd_scale = 1\<rparr>
   \<and> er_log_p \<lparr>er_N = 1, er_rho = [[0]], er_lkhd_scale = 1\<rparr> [[0]] = None
   \<and> er_log_p \<lparr>er_N = 1, er_rho = [[0]], er_lkhd_scale = 1\<rparr> [[1]] = None
   \<and> LatentDistanceGraphModel (\<lambda>p :: unit. Inr flat_prior)
       \<lparr>model_N = 1, model_graph = no_prms\<lparr>g_type := Some ''distance'', g_N_dims := Some 1,
          g_delta := Some 1, g_location_prior := Some (), g_sorted := Some False\<rparr>\<rparr>
     = Inr \<lparr>ld_prms = no_prms\<lparr>g_type := Some ''distance'', g_N_dims := Some 1,
              g_delta := Some 1, g_location_prior := Some (), g_sorted := Some False\<rparr>,
            ld_N = 1, ld_N_dims = 1, ld_location_prior = flat_prior, ld_lkhd_scale = 1\<rparr>
   \<and> ld_pA E \<lparr>ld_prms = no_prms\<lparr>g_type := Some ''distance'', g_N_dims := Some 1,
              g_delta := Some 1, g_location_prior := Some (), g_sorted := Some False\<rparr>,
            ld_N = 1, ld_N_dims = 1, ld_location_prior = flat_prior, ld_lkhd_scale = 1\<rparr> [Fin 0] (Fin 1)
     = Inr [[Fin 1]]
   \<and> ld_log_p E \<lparr>ld_prms = no_prms\<lparr>g_type := Some ''distance'', g_N_dims := Some 1,
              g_delta := Some 1, g_location_prior := Some (), g_sorted := Some False\<rparr>,
            ld_N = 1, ld_N_dims = 1, ld_location_prior = flat_prior, ld_lkhd_scale = 1\<rparr> [Fin 0] (Fin 1) [[0]]
     = Inr None
   \<and> ld_log_p E \<lparr>ld_prms = no_prms\<lparr>g_type := Some ''distance'', g_N_dims := Some 1,
              g_delta := Some 1, g_location_prior := Some (), g_sorted := Some False\<rparr>,
            ld_N = 1, ld_N_dims = 1, ld_location_prior = flat_prior, ld_lkhd_scale = 1\<rparr> [Fin 0] (Fin 1) [[1]]
     = Inr None"
  by (simp add: ErdosRenyiGraphModel_def LatentDistanceGraphModel_def getkey_def no_prms_def
      set_diag_def er_log_p_def er_lkhd_def bernoulli_sum_def bernoulli_def fl_sum_def fl_log_def
      fl_mul_def fl_add_def ld_log_p_def ld_pA_def ld_lkhd_def reshape_def ld_D_def sqdist_def
      f_sub_def rnd_0 rnd_1 flat_prior_def Let_def)

text \<open>
  C4, evaluated where it fails. The factory builds a \<open>StochasticBlockGraphModel\<close>, which
  has no attribute \<open>lkhd_scale\<close>; its \<open>log_p\<close> is the plain sum of the two prior terms
  and the likelihood term. (\<open>er_log_p_scaled\<close>, \<open>ld_log_p_scaled\<close> and the two
  \<open>default_scale\<close> lemmas above show the multiplier in the two classes that have it.)
\<close>

theorem sbm_has_no_lkhd_scale:
  "create_graph_component (\<lambda>p :: unit. Inr flat_prior)
       \<lparr>model_N = 1, model_graph = no_prms\<lparr>g_type := Some ''sbm'', g_R := Some 1, g_b0 := Some 1,
          g_b1 := Some 1, g_alpha0 := Some [1]\<rparr>\<rparr>
     = Inr (StochasticBlock \<lparr>sbm_N = 1, sbm_R = 1, sbm_b0 = 1, sbm_b1 = 1, sbm_alpha0 = [1]\<rparr>)
   \<and> lkhd_scale (StochasticBlock \<lparr>sbm_N = 1, sbm_R = 1, sbm_b0 = 1, sbm_b1 = 1, sbm_alpha0 = [1]\<rparr>
        :: unit graph)
     = Inl (AttributeError ''lkhd_scale'')
   \<and> sbm_log_p \<lparr>sbm_N = 1, sbm_R = 1, sbm_b0 = 1, sbm_b1 = 1, sbm_alpha0 = [1]\<rparr>
        [[1 / 2]] [0] [1] [[1]]
     = Inr (fl_add (fl_add (sbm_log_p_B \<lparr>sbm_N = 1, sbm_R = 1, sbm_b0 = 1, sbm_b1 = 1,
                                          sbm_alpha0 = [1]\<rparr> [[1 / 2]])
                           (sbm_log_p_alpha \<lparr>sbm_N = 1, sbm_R = 1, sbm_b0 = 1, sbm_b1 = 1,
                                              sbm_alpha0 = [1]\<rparr> [1]))
                   (sbm_log_p_A [[1 / 2]] [[1]]))"
  by (simp add: create_graph_component_def getkey_def no_prms_def Let_def
      StochasticBlockGraphModel_def sbm_log_p_def sbm_pA_def lower_sbm)

text \<open>
  C5. For every \<open>N\<close> the Complete model is built, its \<open>sample\<close> is the \<open>N \<times> N\<close>
  matrix of ones, and its \<open>log_p\<close> is 0 whatever it is evaluated at.
\<close>

theorem complete_sample_ones_log_p_zero:
  "\<exists>m. CompleteGraphModel model = Inr m
       \<and> complete_sample m = replicate (model_N model) (replicate (model_N model) 1)
       \<and> (\<forall>x. complete_log_p m x = Some 0)"
  by (simp add: CompleteGraphModel_def complete_sample_def complete_A_def complete_log_p_def)

text \<open>
  C7, as amended. When the factory does not recognize the type string (lower-cased, as the
  factory compares it, it is none of \<open>complete\<close>, \<open>erdos_renyi\<close>, \<open>erdosrenyi\<close>,
  \<open>sbm\<close>, \<open>distance\<close>), it raises the built-in
  \<open>Exception("Unrecognized graph model: ...")\<close> and returns no model.
\<close>

theorem create_graph_component_unrecognized:
  assumes "g_type (model_graph model) = Some t"
      and "lower t \<notin> {''complete'', ''erdos_renyi'', ''erdosrenyi'', ''sbm'', ''distance''}"
  shows "create_graph_component create_prior model
           = Inl (Exception (''Unrecognized graph model: '' @ lower t))"
  using assms by (simp add: create_graph_component_def getkey_def Let_def)

theorem create_graph_component_unrecognized_witness:
  "create_graph_component (\<lambda>p :: unit. Inr flat_prior)
       \<lparr>model_N = 2, model_graph = no_prms\<lparr>g_type := Some ''tree''\<rparr>\<rparr>
     = Inl (Exception ''Unrecognized graph model: tree'')"
  using create_graph_component_unrecognized[of
      "\<lparr>model_N = 2, model_graph = no_prms\<lparr>g_type := Some ''tree''\<rparr>\<rparr>" "''tree''"
      "\<lambda>p :: unit. Inr flat_prior"]
  by (simp add: lower_tree)

text \<open>
  For the unrecognized type \<open>tree\<close> the factory fails, and the class of the exception is
  \<open>Exception\<close>, not \<open>ConfigError\<close>: the module defines no exception class of its own.
\<close>

theorem create_graph_component_class_counterexample:
  "\<exists>e. create_graph_component (\<lambda>p :: unit. Inr flat_prior)
          \<lparr>model_N = 2, model_graph = no_prms\<lparr>g_type := Some ''tree''\<rparr>\<rparr> = Inl e
      \<and> class_name e = ''Exception''
      \<and> class_name e \<noteq> ''ConfigError''"
  by (simp add: create_graph_component_def getkey_def Let_def lower_tree no_prms_def)




text \<open>
  C10. A configuration with \<open>N_dims\<close>, \<open>delta\<close> and \<open>location_prior\<close> (for which
  \<open>create_prior\<close> succeeds) and without \<open>sorted\<close> builds a model whose every
  \<open>sample\<close> raises \<open>KeyError('sorted')\<close>, with \<open>rho_refractory\<close> present or absent;
  once \<open>sorted\<close> is given, and the prior samples \<open>N\<close> rows of \<open>N_dims > 0\<close>
  coordinates, \<open>sample\<close> succeeds, again with \<open>rho_refractory\<close> present or absent.
\<close>

theorem ld_sample_needs_sorted:
  assumes "g_N_dims (model_graph model) = Some nd"
      and "g_delta (model_graph model) = Some d"
      and "g_location_prior (model_graph model) = Some lp"
      and "create_prior lp = Inr prior"
      and "g_sorted (model_graph model) = None"
  shows "(\<exists>m. LatentDistanceGraphModel create_prior model = Inr m
             \<and> (\<forall>U. ld_sample E m U = Inl (KeyError ''sorted'')))
       \<and> (\<forall>r. \<exists>m. LatentDistanceGraphModel create_prior
                     (model\<lparr>model_graph := (model_graph model)\<lparr>g_rho_refractory := r\<rparr>\<rparr>) = Inr m
                 \<and> (\<forall>U. ld_sample E m U = Inl (KeyError ''sorted'')))
       \<and> (\<forall>r b U. length (lp_sample prior (model_N model, nd)) = model_N model
                 \<and> list_all (\<lambda>row. length row = nd) (lp_sample prior (model_N model, nd))
                 \<and> 0 < nd \<longrightarrow>
            (\<exists>m res. LatentDistanceGraphModel create_prior
                     (model\<lparr>model_graph := (model_graph model)\<lparr>g_rho_refractory := r,
                                                               g_sorted := Some b\<rparr>\<rparr>) = Inr m
                 \<and> ld_sample E m U = Inr res))"
proof (intro conjI)
  show "\<exists>m. LatentDistanceGraphModel create_prior model = Inr m
             \<and> (\<forall>U. ld_sample E m U = Inl (KeyError ''sorted''))"
    using assms by (simp add: LatentDistanceGraphModel_def ld_sample_def getkey_def Let_def)
next
  show "\<forall>r. \<exists>m. LatentDistanceGraphModel create_prior
                     (model\<lparr>model_graph := (model_graph model)\<lparr>g_rho_refractory := r\<rparr>\<rparr>) = Inr m
                 \<and> (\<forall>U. ld_sample E m U = Inl (KeyError ''sorted''))"
    using assms by (simp add: LatentDistanceGraphModel_def ld_sample_def getkey_def Let_def)
next
  show "\<forall>r b U. length (lp_sample prior (model_N model, nd)) = model_N model
                 \<and> list_all (\<lambda>row. length row = nd) (lp_sample prior (model_N model, nd))
                 \<and> 0 < nd \<longrightarrow>
            (\<exists>m res. LatentDistanceGraphModel create_prior
                     (model\<lparr>model_graph := (model_graph model)\<lparr>g_rho_refractory := r,
                                                               g_sorted := Some b\<rparr>\<rparr>) = Inr m
                 \<and> ld_sample E m U = Inr res)"
  proof (intro allI impI)
    fix r b U
    let ?L = "lp_sample prior (model_N model, nd)"
    let ?prms = "(model_graph model)\<lparr>g_rho_refractory := r, g_sorted := Some b\<rparr>"
    let ?m = "\<lparr>ld_prms = ?prms, ld_N = model_N model, ld_N_dims = nd,
               ld_location_prior = prior, ld_lkhd_scale = 1\<rparr>"
    assume shape: "length ?L = model_N model \<and> list_all (\<lambda>row. length row = nd) ?L \<and> 0 < nd"
    have c: "LatentDistanceGraphModel create_prior (model\<lparr>model_graph := ?prms\<rparr>) = Inr ?m"
      using assms by (simp add: LatentDistanceGraphModel_def getkey_def Let_def)
    let ?L' = "if b then sort_key hd ?L else ?L"
    have rows: "list_all (\<lambda>row. length row = nd) ?L'"
      using shape by (simp add: list_all_iff)
    have len: "length ?L' = model_N model" using shape by simp
    have flat: "length (map Fin (concat ?L')) = ld_N ?m * ld_N_dims ?m"
      using length_concat_rows[OF rows] len by simp
    from ld_pA_total[OF flat] obtain pA where pA: "ld_pA E ?m (map Fin (concat ?L')) (Fin d) = Inr pA" by blast
    have nonempty: "list_all (\<lambda>row. row \<noteq> []) ?L"
      using shape by (auto simp: list_all_iff)
    have "ld_sample E ?m U = Inr (ld_draw_edges U pA, concat ?L', d)"
      using assms(2) nonempty pA by (simp add: ld_sample_def getkey_def Let_def)
    with c show "\<exists>m res. LatentDistanceGraphModel create_prior (model\<lparr>model_graph := ?prms\<rparr>) = Inr m
                 \<and> ld_sample E m U = Inr res"
      by blast
  qed
qed

theorem ld_sample_needs_sorted_witness:
  "(\<exists>m. LatentDistanceGraphModel (\<lambda>p :: unit. Inr flat_prior)
            \<lparr>model_N = 2, model_graph = no_prms\<lparr>g_type := Some ''distance'', g_N_dims := Some 1,
               g_delta := Some 1, g_location_prior := Some ()\<rparr>\<rparr> = Inr m
        \<and> ld_sample rnd_exp m [[0, 0], [0, 0]] = Inl (KeyError ''sorted''))"
proof -
  let ?model = "\<lparr>model_N = 2, model_graph = no_prms\<lparr>g_type := Some ''distance'',
      g_N_dims := Some 1, g_delta := Some 1, g_location_prior := Some ()\<rparr>\<rparr>"
  have 1: "g_N_dims (model_graph ?model) = Some 1" by (simp add: no_prms_def)
  have 2: "g_delta (model_graph ?model) = Some 1" by (simp add: no_prms_def)
  have 3: "g_location_prior (model_graph ?model) = Some ()" by (simp add: no_prms_def)
  have 4: "(\<lambda>p :: unit. Inr flat_prior) () = Inr flat_prior" by simp
  have 5: "g_sorted (model_graph ?model) = None" by (simp add: no_prms_def)
  from ld_sample_needs_sorted[OF 1 2 3 4 5] show ?thesis by blast
qed

end
